theory Spec2Isabelle
  imports Complex_Main
begin

section \<open>Arrays, indexing and loops\<close>

text \<open>
  The two scripts work on numpy arrays of float64 numbers: a rank-4 tensor of
  two-electron integrals, a coefficient matrix and a vector of orbital energies.
  Arrays are nested lists here. In the integral transformation, array entries are finite
  numbers and sums and products are exact (type \<open>real\<close>): rounding is not part of that
  model. The MP2 energy is computed in float64 (type \<open>fval\<close>, below): every operation
  rounds, overflows to \<open>inf\<close>, and a division by zero yields \<open>inf\<close> or \<open>nan\<close> without
  raising, as numpy's does.
  The calls of \<open>time.clock\<close> and \<open>print\<close> take no part in any result and are left out.
\<close>

type_synonym vector = "real list"
type_synonym matrix = "real list list"
type_synonym tensor4 = "real list list list list"

datatype error = IndexError | ValueError

subsection \<open>float64\<close>

text \<open>
  A float64 is a finite number (\<open>Finite 0\<close> is \<open>0.0\<close>), \<open>-0.0\<close>, \<open>inf\<close>, \<open>-inf\<close> or \<open>nan\<close>.
  The finite doubles are the numbers \<open>\<plusminus> m \<cdot> 2\<^sup>e\<^sup>-\<^sup>5\<^sup>2\<close> with \<open>0 \<le> m < 2\<^sup>5\<^sup>3\<close> and
  \<open>-1022 \<le> e \<le> 1023\<close>; the operations below return such numbers only.
\<close>

datatype fval = Finite real | NegZero | PosInf | NegInf | NaN

text \<open>The number of binary digits of a positive integer (Python's \<open>int.bit_length\<close>).\<close>

function bit_length :: "int \<Rightarrow> int" where
  "bit_length n = (if n \<le> 0 then 0 else 1 + bit_length (n div 2))"
  by pat_completeness auto
termination
  by (relation "measure nat") auto

declare bit_length.simps [simp del]

definition pow2 :: "int \<Rightarrow> real" where
  "pow2 k = (if 0 \<le> k then 2 ^ nat k else 1 / 2 ^ nat (- k))"

text \<open>For \<open>a > 0\<close>, the integer \<open>e\<close> with \<open>2\<^sup>e \<le> a < 2\<^sup>e\<^sup>+\<^sup>1\<close>.\<close>

definition ilog2 :: "real \<Rightarrow> int" where
  "ilog2 a =
     (if 1 \<le> a then bit_length \<lfloor>a\<rfloor> - 1
      else - bit_length (\<lceil>1 / a\<rceil> - 1))"

text \<open>The nearest integer; of two nearest ones, the even one.\<close>

definition round_half_even :: "real \<Rightarrow> int" where
  "round_half_even q =
     (let f = \<lfloor>q\<rfloor>; d = q - of_int f
      in if d < 1 / 2 then f else if 1 / 2 < d then f + 1 else if even f then f else f + 1)"

text \<open>
  Rounding of a nonzero real number to float64 (round to nearest, ties to even): the
  spacing of the doubles around \<open>x\<close> is \<open>2\<^sup>e\<^sup>-\<^sup>5\<^sup>2\<close> with \<open>e\<close> the binary exponent of \<open>x\<close>, and
  \<open>2\<^sup>-\<^sup>1\<^sup>0\<^sup>7\<^sup>4\<close> below \<open>2\<^sup>-\<^sup>1\<^sup>0\<^sup>2\<^sup>2\<close>; a result of magnitude \<open>2\<^sup>1\<^sup>0\<^sup>2\<^sup>4\<close> is an overflow.
\<close>

definition round64 :: "real \<Rightarrow> fval" where
  "round64 x =
     (let a = \<bar>x\<bar>;
          e = max (ilog2 a) (- 1022);
          u = pow2 (e - 52);
          m = round_half_even (a / u);
          y = of_int m * u
      in if pow2 1024 \<le> y then (if x < 0 then NegInf else PosInf)
         else if m = 0 then (if x < 0 then NegZero else Finite 0)
         else Finite (if x < 0 then - y else y))"

fun is_nan :: "fval \<Rightarrow> bool" where
  "is_nan NaN = True"
| "is_nan _ = False"

fun is_inf :: "fval \<Rightarrow> bool" where
  "is_inf PosInf = True"
| "is_inf NegInf = True"
| "is_inf _ = False"

fun is_zero :: "fval \<Rightarrow> bool" where
  "is_zero (Finite r) = (r = 0)"
| "is_zero NegZero = True"
| "is_zero _ = False"

fun is_finite :: "fval \<Rightarrow> bool" where
  "is_finite (Finite r) = True"
| "is_finite NegZero = True"
| "is_finite _ = False"

fun is_negative :: "fval \<Rightarrow> bool" where
  "is_negative (Finite r) = (r < 0)"
| "is_negative NegZero = True"
| "is_negative PosInf = False"
| "is_negative NegInf = True"
| "is_negative NaN = False"

text \<open>The number a finite float64 stands for.\<close>

fun real_of :: "fval \<Rightarrow> real" where
  "real_of (Finite r) = r"
| "real_of _ = 0"

text \<open>The sign of a product or a quotient is negative when one operand's sign is.\<close>

definition sign_xor :: "fval \<Rightarrow> fval \<Rightarrow> bool" where
  "sign_xor x y = (is_negative x \<noteq> is_negative y)"

definition zero_of_sign :: "bool \<Rightarrow> fval" where
  "zero_of_sign negative = (if negative then NegZero else Finite 0)"

definition inf_of_sign :: "bool \<Rightarrow> fval" where
  "inf_of_sign negative = (if negative then NegInf else PosInf)"

text \<open>\<open>-x\<close>\<close>

fun fneg :: "fval \<Rightarrow> fval" where
  "fneg (Finite r) = (if r = 0 then NegZero else Finite (- r))"
| "fneg NegZero = Finite 0"
| "fneg PosInf = NegInf"
| "fneg NegInf = PosInf"
| "fneg NaN = NaN"

text \<open>
  \<open>x + y\<close>: \<open>inf + -inf\<close> is \<open>nan\<close>; a sum that is exactly zero is \<open>0.0\<close>, and \<open>-0.0\<close> only
  for \<open>-0.0 + -0.0\<close>; any other sum is rounded.
\<close>

fun fadd :: "fval \<Rightarrow> fval \<Rightarrow> fval" where
  "fadd NaN _ = NaN"
| "fadd _ NaN = NaN"
| "fadd PosInf NegInf = NaN"
| "fadd NegInf PosInf = NaN"
| "fadd PosInf _ = PosInf"
| "fadd _ PosInf = PosInf"
| "fadd NegInf _ = NegInf"
| "fadd _ NegInf = NegInf"
| "fadd NegZero NegZero = NegZero"
| "fadd NegZero (Finite y) = Finite y"
| "fadd (Finite x) NegZero = Finite x"
| "fadd (Finite x) (Finite y) = (if x + y = 0 then Finite 0 else round64 (x + y))"

text \<open>\<open>x - y\<close> is \<open>x + (-y)\<close>.\<close>

definition fsub :: "fval \<Rightarrow> fval \<Rightarrow> fval" where
  "fsub x y = fadd x (fneg y)"

text \<open>\<open>x * y\<close>: \<open>inf * 0\<close> is \<open>nan\<close>; a zero product has the sign of the operands.\<close>

definition fmul :: "fval \<Rightarrow> fval \<Rightarrow> fval" where
  "fmul x y =
     (if is_nan x \<or> is_nan y then NaN
      else if is_inf x \<or> is_inf y then
        (if is_zero x \<or> is_zero y then NaN else inf_of_sign (sign_xor x y))
      else if is_zero x \<or> is_zero y then zero_of_sign (sign_xor x y)
      else round64 (real_of x * real_of y))"

text \<open>
  \<open>x / y\<close>, which never raises: \<open>inf / inf\<close> and \<open>0 / 0\<close> are \<open>nan\<close>, any other \<open>x / 0\<close> is
  \<open>inf\<close> or \<open>-inf\<close>, and a finite \<open>x\<close> divided by \<open>inf\<close> is a zero.
\<close>

definition fdiv :: "fval \<Rightarrow> fval \<Rightarrow> fval" where
  "fdiv x y =
     (if is_nan x \<or> is_nan y then NaN
      else if is_inf x then (if is_inf y then NaN else inf_of_sign (sign_xor x y))
      else if is_inf y then zero_of_sign (sign_xor x y)
      else if is_zero y then (if is_zero x then NaN else inf_of_sign (sign_xor x y))
      else if is_zero x then zero_of_sign (sign_xor x y)
      else round64 (real_of x / real_of y))"

subsection \<open>Exceptions, indexing, loops\<close>

text \<open>A raised exception is \<open>Inl\<close>; the next step runs on \<open>Inr\<close> only.\<close>

definition bind_res :: "error + 'a \<Rightarrow> ('a \<Rightarrow> error + 'b) \<Rightarrow> error + 'b" where
  "bind_res m f = (case m of Inl e \<Rightarrow> Inl e | Inr x \<Rightarrow> f x)"

text \<open>
  An index \<open>i\<close> into an axis of length \<open>n\<close>: \<open>0 \<le> i < n\<close> is the position itself, a
  negative \<open>i \<ge> -n\<close> counts from the end, anything else raises IndexError.
\<close>

definition py_index :: "nat \<Rightarrow> int \<Rightarrow> error + nat" where
  "py_index n i =
     (if 0 \<le> i \<and> i < int n then Inr (nat i)
      else if - int n \<le> i \<and> i < 0 then Inr (nat (i + int n))
      else Inl IndexError)"

definition get1 :: "'a list \<Rightarrow> int \<Rightarrow> error + 'a" where
  "get1 xs i = bind_res (py_index (length xs) i) (\<lambda>k. Inr (xs ! k))"

definition set1 :: "'a list \<Rightarrow> int \<Rightarrow> 'a \<Rightarrow> error + 'a list" where
  "set1 xs i v = bind_res (py_index (length xs) i) (\<lambda>k. Inr (xs[k := v]))"

text \<open>\<open>m[i, j]\<close> and \<open>t[i, j, k, l]\<close>.\<close>

definition get2 :: "matrix \<Rightarrow> int \<Rightarrow> int \<Rightarrow> error + real" where
  "get2 m i j = bind_res (get1 m i) (\<lambda>row. get1 row j)"

definition get4 :: "'a list list list list \<Rightarrow> int \<Rightarrow> int \<Rightarrow> int \<Rightarrow> int \<Rightarrow> error + 'a" where
  "get4 t i j k l =
     bind_res (get1 t i) (\<lambda>a. bind_res (get1 a j) (\<lambda>b. bind_res (get1 b k) (\<lambda>c. get1 c l)))"

text \<open>\<open>t[i, j, k, l] = v\<close>, returning the updated array.\<close>

definition set4 :: "tensor4 \<Rightarrow> int \<Rightarrow> int \<Rightarrow> int \<Rightarrow> int \<Rightarrow> real \<Rightarrow> error + tensor4" where
  "set4 t i j k l v =
     bind_res (get1 t i) (\<lambda>a. bind_res (get1 a j) (\<lambda>b. bind_res (get1 b k) (\<lambda>c.
     bind_res (set1 c l v) (\<lambda>c'. bind_res (set1 b k c') (\<lambda>b'.
     bind_res (set1 a j b') (\<lambda>a'. set1 t i a'))))))"

text \<open>
  \<open>t[i, j, k, l] += v\<close> where \<open>v\<close> is the value of the right-hand side: Python reads the
  target first, then evaluates the right-hand side (the argument \<open>rhs\<close>, which may raise),
  then stores the sum.
\<close>

definition iadd4 ::
  "tensor4 \<Rightarrow> int \<Rightarrow> int \<Rightarrow> int \<Rightarrow> int \<Rightarrow> (error + real) \<Rightarrow> error + tensor4" where
  "iadd4 t i j k l rhs =
     bind_res (get4 t i j k l) (\<lambda>old. bind_res rhs (\<lambda>v. set4 t i j k l (old + v)))"

text \<open>\<open>np.zeros(t.shape)\<close> and \<open>t.fill(0)\<close>: an array of the shape of \<open>t\<close>, all zero.\<close>

definition zeros_like :: "tensor4 \<Rightarrow> tensor4" where
  "zeros_like t = map (map (map (map (\<lambda>_. 0)))) t"

text \<open>\<open>range(lo, hi)\<close>; \<open>range(n)\<close> is \<open>range(0, n)\<close>.\<close>

definition range_py :: "int \<Rightarrow> int \<Rightarrow> int list" where
  "range_py lo hi = [lo..hi - 1]"

text \<open>
  \<open>for x in xs: body\<close>, on the variables the body assigns; an exception leaves the loop.
\<close>

fun for_loop :: "'i list \<Rightarrow> ('i \<Rightarrow> 's \<Rightarrow> error + 's) \<Rightarrow> 's \<Rightarrow> error + 's" where
  "for_loop [] body st = Inr st"
| "for_loop (x # xs) body st =
     (case body x st of Inl e \<Rightarrow> Inl e | Inr st' \<Rightarrow> for_loop xs body st')"

text \<open>The shape of an array: every row of an axis has the same length.\<close>

definition is_matrix :: "nat \<Rightarrow> nat \<Rightarrow> matrix \<Rightarrow> bool" where
  "is_matrix d0 d1 m = (length m = d0 \<and> list_all (\<lambda>r. length r = d1) m)"

definition is_tensor4 ::
  "nat \<Rightarrow> nat \<Rightarrow> nat \<Rightarrow> nat \<Rightarrow> 'a list list list list \<Rightarrow> bool" where
  "is_tensor4 d0 d1 d2 d3 t =
     (length t = d0 \<and> list_all (\<lambda>a. length a = d1 \<and>
        list_all (\<lambda>b. length b = d2 \<and> list_all (\<lambda>c. length c = d3) b) a) t)"

section \<open>The MP2 energy\<close>

text \<open>
  \<open>compute_mp2_energy\<close> is the same function in both scripts (lines 147 to 168 of
  \<open>mp2_canonical_slow.py\<close>, lines 80 to 102 of \<open>mp2_canonical_fast.py\<close>). The body of
  its innermost loop is the statement
  \<^verbatim>\<open>E += g2e_mo[i, a, j, b]*(2*g2e_mo[i, a, j, b] - g2e_mo[i, b, j, a])/
       (orb_e[i] + orb_e[j] - orb_e[a] - orb_e[b])\<close>
\<close>

text \<open>
  The entries of \<open>g2e_mo\<close> and \<open>orb_e\<close> are float64, and so is every intermediate value:
  the literal \<open>2\<close> is \<open>2.0\<close>, \<open>E\<close> starts as \<open>0.0\<close>, and the operations are done in Python's
  order, products and quotients from the left.
\<close>

definition mp2_body ::
  "fval list list list list \<Rightarrow> fval list \<Rightarrow> int \<Rightarrow> int \<Rightarrow> int \<Rightarrow> int \<Rightarrow> fval
     \<Rightarrow> error + fval" where
  "mp2_body g2e_mo orb_e i j a b E =
     bind_res (get4 g2e_mo i a j b) (\<lambda>x1.
     bind_res (get4 g2e_mo i a j b) (\<lambda>x2.
     bind_res (get4 g2e_mo i b j a) (\<lambda>x3.
     bind_res (get1 orb_e i) (\<lambda>ei.
     bind_res (get1 orb_e j) (\<lambda>ej.
     bind_res (get1 orb_e a) (\<lambda>ea.
     bind_res (get1 orb_e b) (\<lambda>eb.
       Inr (fadd E
             (fdiv (fmul x1 (fsub (fmul (Finite 2) x2) x3))
                   (fsub (fsub (fadd ei ej) ea) eb))))))))))"

definition compute_mp2_energy ::
  "int \<Rightarrow> int \<Rightarrow> fval list list list list \<Rightarrow> fval list \<Rightarrow> real \<Rightarrow> error + fval" where
  "compute_mp2_energy num_bf nocc g2e_mo orb_e ehf =
     for_loop (range_py 0 nocc) (\<lambda>i.
       for_loop (range_py 0 nocc) (\<lambda>j.
         for_loop (range_py nocc num_bf) (\<lambda>a.
           for_loop (range_py nocc num_bf) (\<lambda>b.
             mp2_body g2e_mo orb_e i j a b))))
       (Finite 0)"

section \<open>The integral transformation\<close>

subsection \<open>The naive loop\<close>

text \<open>
  \<open>transform_integrals_slow\<close> (\<open>mp2_canonical_slow.py\<close>, lines 60 to 82): eight nested
  loops around
  \<^verbatim>\<open>g2e_mo[p, q, r, s] += coeff_mat[p, mu]*coeff_mat[q, nu]*
      g2e_ao[mu, nu, rho, sigma]*coeff_mat[r, rho]*coeff_mat[s, sigma]\<close>
\<close>

definition slow_rhs ::
  "tensor4 \<Rightarrow> matrix \<Rightarrow> int \<Rightarrow> int \<Rightarrow> int \<Rightarrow> int \<Rightarrow> int \<Rightarrow> int \<Rightarrow> int \<Rightarrow> int \<Rightarrow> error + real" where
  "slow_rhs g2e_ao coeff_mat p q r s mu nu rho sigma =
     bind_res (get2 coeff_mat p mu) (\<lambda>c1.
     bind_res (get2 coeff_mat q nu) (\<lambda>c2.
     bind_res (get4 g2e_ao mu nu rho sigma) (\<lambda>x.
     bind_res (get2 coeff_mat r rho) (\<lambda>c3.
     bind_res (get2 coeff_mat s sigma) (\<lambda>c4.
       Inr (c1 * c2 * x * c3 * c4))))))"

definition transform_integrals_slow :: "int \<Rightarrow> tensor4 \<Rightarrow> matrix \<Rightarrow> error + tensor4" where
  "transform_integrals_slow num_bf g2e_ao coeff_mat =
     for_loop (range_py 0 num_bf) (\<lambda>p.
      for_loop (range_py 0 num_bf) (\<lambda>q.
       for_loop (range_py 0 num_bf) (\<lambda>r.
        for_loop (range_py 0 num_bf) (\<lambda>s.
         for_loop (range_py 0 num_bf) (\<lambda>mu.
          for_loop (range_py 0 num_bf) (\<lambda>nu.
           for_loop (range_py 0 num_bf) (\<lambda>rho.
            for_loop (range_py 0 num_bf) (\<lambda>sigma g2e_mo.
              iadd4 g2e_mo p q r s
                (slow_rhs g2e_ao coeff_mat p q r s mu nu rho sigma)))))))))
       (zeros_like g2e_ao)"

subsection \<open>The factored loops\<close>

text \<open>
  \<open>transform_integrals\<close> (\<open>mp2_canonical_slow.py\<close>, lines 98 to 135) runs four passes of
  five nested loops each, over two work arrays \<open>g\<close> and \<open>gmo\<close>. Each pass is a function
  here, named after the lines it embeds; \<open>transform_integrals\<close> chains them.
\<close>

text \<open>Lines 102 to 108: \<open>g[mu, nu, rho, s] += g2e_ao[mu, nu, rho, sigma] * coeff_mat[rho, s]\<close>.\<close>

definition pass1 :: "int \<Rightarrow> tensor4 \<Rightarrow> matrix \<Rightarrow> error + tensor4" where
  "pass1 num_bf g2e_ao coeff_mat =
     for_loop (range_py 0 num_bf) (\<lambda>mu.
      for_loop (range_py 0 num_bf) (\<lambda>nu.
       for_loop (range_py 0 num_bf) (\<lambda>rho.
        for_loop (range_py 0 num_bf) (\<lambda>sigma.
         for_loop (range_py 0 num_bf) (\<lambda>s g.
           iadd4 g mu nu rho s
             (bind_res (get4 g2e_ao mu nu rho sigma) (\<lambda>x.
              bind_res (get2 coeff_mat rho s) (\<lambda>c. Inr (x * c)))))))))
       (zeros_like g2e_ao)"

text \<open>Lines 111 to 117: \<open>gmo[mu, nu, r, s] += g[mu, nu, rho, s]*coeff_mat[rho, r]\<close>.\<close>

definition pass2 :: "int \<Rightarrow> tensor4 \<Rightarrow> tensor4 \<Rightarrow> matrix \<Rightarrow> error + tensor4" where
  "pass2 num_bf g2e_ao g coeff_mat =
     for_loop (range_py 0 num_bf) (\<lambda>mu.
      for_loop (range_py 0 num_bf) (\<lambda>nu.
       for_loop (range_py 0 num_bf) (\<lambda>r.
        for_loop (range_py 0 num_bf) (\<lambda>s.
         for_loop (range_py 0 num_bf) (\<lambda>rho gmo.
           iadd4 gmo mu nu r s
             (bind_res (get4 g mu nu rho s) (\<lambda>x.
              bind_res (get2 coeff_mat rho r) (\<lambda>c. Inr (x * c)))))))))
       (zeros_like g2e_ao)"

text \<open>Lines 119 to 125: \<open>g.fill(0)\<close>, then \<open>g[mu, q, r, s] += gmo[mu, nu, r, s]*coeff_mat[nu, q]\<close>.\<close>

definition pass3 :: "int \<Rightarrow> tensor4 \<Rightarrow> tensor4 \<Rightarrow> matrix \<Rightarrow> error + tensor4" where
  "pass3 num_bf g gmo coeff_mat =
     for_loop (range_py 0 num_bf) (\<lambda>mu.
      for_loop (range_py 0 num_bf) (\<lambda>q.
       for_loop (range_py 0 num_bf) (\<lambda>r.
        for_loop (range_py 0 num_bf) (\<lambda>s.
         for_loop (range_py 0 num_bf) (\<lambda>nu g'.
           iadd4 g' mu q r s
             (bind_res (get4 gmo mu nu r s) (\<lambda>x.
              bind_res (get2 coeff_mat nu q) (\<lambda>c. Inr (x * c)))))))))
       (zeros_like g)"

text \<open>Lines 127 to 133: \<open>gmo.fill(0)\<close>, then \<open>gmo[p, q, r, s] += g[mu, q, r, s]*coeff_mat[mu, p]\<close>.\<close>

definition pass4 :: "int \<Rightarrow> tensor4 \<Rightarrow> tensor4 \<Rightarrow> matrix \<Rightarrow> error + tensor4" where
  "pass4 num_bf gmo g coeff_mat =
     for_loop (range_py 0 num_bf) (\<lambda>p.
      for_loop (range_py 0 num_bf) (\<lambda>q.
       for_loop (range_py 0 num_bf) (\<lambda>r.
        for_loop (range_py 0 num_bf) (\<lambda>s.
         for_loop (range_py 0 num_bf) (\<lambda>mu gmo'.
           iadd4 gmo' p q r s
             (bind_res (get4 g mu q r s) (\<lambda>x.
              bind_res (get2 coeff_mat mu p) (\<lambda>c. Inr (x * c)))))))))
       (zeros_like gmo)"

definition transform_integrals :: "int \<Rightarrow> tensor4 \<Rightarrow> matrix \<Rightarrow> error + tensor4" where
  "transform_integrals num_bf g2e_ao coeff_mat =
     bind_res (pass1 num_bf g2e_ao coeff_mat) (\<lambda>g.
     bind_res (pass2 num_bf g2e_ao g coeff_mat) (\<lambda>gmo.
     bind_res (pass3 num_bf g gmo coeff_mat) (\<lambda>g'.
     pass4 num_bf gmo g' coeff_mat)))"

subsection \<open>The einsum variants\<close>

text \<open>
  \<open>np.einsum\<close> is numpy's, not the scripts'; it is modelled by what its subscript
  strings mean on arrays: the output entry at the output labels is the sum, over the
  labels that do not occur in the output, of the product of the operands' entries.
  Where the sizes of a label in two operands differ, numpy stretches an axis of length 1
  to the other size, and raises ValueError when neither size is 1.
\<close>

definition shape2 :: "matrix \<Rightarrow> nat \<times> nat" where
  "shape2 m = (length m, case m of [] \<Rightarrow> 0 | r # _ \<Rightarrow> length r)"

definition shape4 :: "tensor4 \<Rightarrow> nat \<times> nat \<times> nat \<times> nat" where
  "shape4 t =
     (length t,
      case t of [] \<Rightarrow> 0 | a # _ \<Rightarrow> length a,
      case concat t of [] \<Rightarrow> 0 | b # _ \<Rightarrow> length b,
      case concat (concat t) of [] \<Rightarrow> 0 | c # _ \<Rightarrow> length c)"

definition tabulate4 ::
  "nat \<Rightarrow> nat \<Rightarrow> nat \<Rightarrow> nat \<Rightarrow> (nat \<Rightarrow> nat \<Rightarrow> nat \<Rightarrow> nat \<Rightarrow> real) \<Rightarrow> tensor4" where
  "tabulate4 d0 d1 d2 d3 f =
     map (\<lambda>i. map (\<lambda>j. map (\<lambda>k. map (\<lambda>l. f i j k l) [0..<d3]) [0..<d2]) [0..<d1]) [0..<d0]"

text \<open>The common size of a label with the sizes \<open>d\<close> and \<open>c\<close> in two operands.\<close>

definition broadcast :: "nat \<Rightarrow> nat \<Rightarrow> error + nat" where
  "broadcast d c =
     (if d = c then Inr d else if d = 1 then Inr c else if c = 1 then Inr d
      else Inl ValueError)"

text \<open>The position read on an axis of length \<open>d\<close> for the label value \<open>i\<close>.\<close>

definition stretch :: "nat \<Rightarrow> nat \<Rightarrow> nat" where
  "stretch d i = (if d = 1 then 0 else i)"

text \<open>\<open>np.einsum('PQRS, Pp->pQRS', a, c)\<close>\<close>

definition einsum_axis0 :: "tensor4 \<Rightarrow> matrix \<Rightarrow> error + tensor4" where
  "einsum_axis0 a c =
     (case (shape4 a, shape2 c) of ((dP, dQ, dR, dS), (cP, cp)) \<Rightarrow>
        bind_res (broadcast dP cP) (\<lambda>nP.
          Inr (tabulate4 cp dQ dR dS
               (\<lambda>p Q R S. \<Sum>P\<leftarrow>[0..<nP]. a ! stretch dP P ! Q ! R ! S * c ! stretch cP P ! p))))"

text \<open>\<open>np.einsum('pQRS, Qq->pqRS', a, c)\<close>\<close>

definition einsum_axis1 :: "tensor4 \<Rightarrow> matrix \<Rightarrow> error + tensor4" where
  "einsum_axis1 a c =
     (case (shape4 a, shape2 c) of ((dp, dQ, dR, dS), (cQ, cq)) \<Rightarrow>
        bind_res (broadcast dQ cQ) (\<lambda>nQ.
          Inr (tabulate4 dp cq dR dS
               (\<lambda>p q R S. \<Sum>Q\<leftarrow>[0..<nQ]. a ! p ! stretch dQ Q ! R ! S * c ! stretch cQ Q ! q))))"

text \<open>\<open>np.einsum('pqRS, Rr->pqrS', a, c)\<close>\<close>

definition einsum_axis2 :: "tensor4 \<Rightarrow> matrix \<Rightarrow> error + tensor4" where
  "einsum_axis2 a c =
     (case (shape4 a, shape2 c) of ((dp, dq, dR, dS), (cR, cr)) \<Rightarrow>
        bind_res (broadcast dR cR) (\<lambda>nR.
          Inr (tabulate4 dp dq cr dS
               (\<lambda>p q r S. \<Sum>R\<leftarrow>[0..<nR]. a ! p ! q ! stretch dR R ! S * c ! stretch cR R ! r))))"

text \<open>\<open>np.einsum('pqrS, Ss->pqrs', a, c)\<close>\<close>

definition einsum_axis3 :: "tensor4 \<Rightarrow> matrix \<Rightarrow> error + tensor4" where
  "einsum_axis3 a c =
     (case (shape4 a, shape2 c) of ((dp, dq, dr, dS), (cS, cs)) \<Rightarrow>
        bind_res (broadcast dS cS) (\<lambda>nS.
          Inr (tabulate4 dp dq dr cs
               (\<lambda>p q r s. \<Sum>S\<leftarrow>[0..<nS]. a ! p ! q ! r ! stretch dS S * c ! stretch cS S ! s))))"

text \<open>\<open>np.einsum('PQRS, Pp, Qq, Rr, Ss->pqrs', a, c1, c2, c3, c4)\<close>\<close>

definition einsum_all ::
  "tensor4 \<Rightarrow> matrix \<Rightarrow> matrix \<Rightarrow> matrix \<Rightarrow> matrix \<Rightarrow> error + tensor4" where
  "einsum_all a c1 c2 c3 c4 =
     (case (shape4 a, shape2 c1, shape2 c2, shape2 c3, shape2 c4) of
        ((dP, dQ, dR, dS), (cP, cp), (cQ, cq), (cR, cr), (cS, cs)) \<Rightarrow>
        bind_res (broadcast dP cP) (\<lambda>nP.
        bind_res (broadcast dQ cQ) (\<lambda>nQ.
        bind_res (broadcast dR cR) (\<lambda>nR.
        bind_res (broadcast dS cS) (\<lambda>nS.
          Inr (tabulate4 cp cq cr cs
               (\<lambda>p q r s. \<Sum>P\<leftarrow>[0..<nP]. \<Sum>Q\<leftarrow>[0..<nQ]. \<Sum>R\<leftarrow>[0..<nR]. \<Sum>S\<leftarrow>[0..<nS].
                  a ! stretch dP P ! stretch dQ Q ! stretch dR R ! stretch dS S
                    * c1 ! stretch cP P ! p * c2 ! stretch cQ Q ! q
                    * c3 ! stretch cR R ! r * c4 ! stretch cS S ! s)))))))"

text \<open>
  Both scripts assign the AO tensor to the module-level variable \<open>g2e_ao\<close> (line 42),
  and the bodies of both einsum variants name that variable: their first parameter is
  spelled \<open>ge2_ao\<close> and is never used. The module-level variable is therefore an input
  of the model.
\<close>

record globals =
  g2e_ao_global :: tensor4

text \<open>
  \<open>transform_integrals_einsum\<close> of \<open>mp2_canonical_fast.py\<close> (lines 60 to 69): four
  assignments to \<open>g2e_mo\<close>, each from \<open>g2e_ao\<close>; the last one is returned.
\<close>

definition transform_integrals_einsum :: "globals \<Rightarrow> tensor4 \<Rightarrow> matrix \<Rightarrow> error + tensor4" where
  "transform_integrals_einsum glob ge2_ao coeff_mat =
     bind_res (einsum_axis0 (g2e_ao_global glob) coeff_mat) (\<lambda>g2e_mo.
     bind_res (einsum_axis1 (g2e_ao_global glob) coeff_mat) (\<lambda>g2e_mo.
     bind_res (einsum_axis2 (g2e_ao_global glob) coeff_mat) (\<lambda>g2e_mo.
     einsum_axis3 (g2e_ao_global glob) coeff_mat)))"

text \<open>
  \<open>transform_integrals_einsum\<close> of \<open>mp2_canonical_slow.py\<close> (lines 87 to 93): one
  einsum over all four axes.
\<close>

definition transform_integrals_einsum_slow_py ::
  "globals \<Rightarrow> tensor4 \<Rightarrow> matrix \<Rightarrow> error + tensor4" where
  "transform_integrals_einsum_slow_py glob ge2_ao coeff_mat =
     einsum_all (g2e_ao_global glob) coeff_mat coeff_mat coeff_mat coeff_mat"

section \<open>What the specification asks for\<close>

text \<open>
  The defining contraction of the specification,
  \<open>g2e_mo[p,q,r,s] = \<Sum>\<^sub>\<mu>\<^sub>\<nu>\<^sub>\<rho>\<^sub>\<sigma> C[\<mu>,p] C[\<nu>,q] C[\<rho>,r] C[\<sigma>,s] g2e_ao[\<mu>,\<nu>,\<rho>,\<sigma>]\<close>,
  as the \<open>N \<times> N \<times> N \<times> N\<close> array of its right-hand sides.
\<close>

definition contraction :: "nat \<Rightarrow> tensor4 \<Rightarrow> matrix \<Rightarrow> tensor4" where
  "contraction N g2e_ao C =
     tabulate4 N N N N (\<lambda>p q r s.
       \<Sum>\<mu>\<leftarrow>[0..<N]. \<Sum>\<nu>\<leftarrow>[0..<N]. \<Sum>\<rho>\<leftarrow>[0..<N]. \<Sum>\<sigma>\<leftarrow>[0..<N].
         C ! \<mu> ! p * C ! \<nu> ! q * C ! \<rho> ! r * C ! \<sigma> ! s * g2e_ao ! \<mu> ! \<nu> ! \<rho> ! \<sigma>)"

text \<open>
  The first intermediate of the factored strategy as the specification writes it,
  \<open>g1[\<mu>,\<nu>,\<rho>,s] = \<Sum>\<^sub>\<sigma> g2e_ao[\<mu>,\<nu>,\<rho>,\<sigma>] \<cdot> C[\<sigma>,s]\<close>.
\<close>

definition first_contraction :: "nat \<Rightarrow> tensor4 \<Rightarrow> matrix \<Rightarrow> tensor4" where
  "first_contraction N g2e_ao C =
     tabulate4 N N N N (\<lambda>\<mu> \<nu> \<rho> s. \<Sum>\<sigma>\<leftarrow>[0..<N]. g2e_ao ! \<mu> ! \<nu> ! \<rho> ! \<sigma> * C ! \<sigma> ! s)"



definition mp2_indices :: "nat \<Rightarrow> nat \<Rightarrow> (nat \<times> nat \<times> nat \<times> nat) set" where
  "mp2_indices N nocc = {0..<nocc} \<times> {0..<nocc} \<times> {nocc..<N} \<times> {nocc..<N}"


section \<open>Example inputs\<close>

text \<open>
  A \<open>2 \<times> 2 \<times> 2 \<times> 2\<close> AO tensor whose only nonzero entry is \<open>[0, 0, 0, 1]\<close>, a coefficient
  matrix that is not symmetric, and the \<open>2 \<times> 2\<close> identity matrix.
\<close>

definition ao_example :: tensor4 where
  "ao_example =
     [[[[0, 1], [0, 0]], [[0, 0], [0, 0]]], [[[0, 0], [0, 0]], [[0, 0], [0, 0]]]]"

definition coeff_example :: matrix where
  "coeff_example = [[1, 1], [0, 1]]"

definition identity2 :: matrix where
  "identity2 = [[1, 0], [0, 1]]"

definition mo_example :: tensor4 where
  "mo_example =
     [[[[1, 2], [3, 4]], [[5, 6], [7, 8]]], [[[9, 10], [11, 12]], [[13, 14], [15, 16]]]]"


section \<open>The MP2 energy in float64\<close>

text \<open>The float64 arrays that hold the entries of arrays of numbers.\<close>

definition float_vector :: "vector \<Rightarrow> fval list" where
  "float_vector v = map Finite v"

definition float_tensor :: "tensor4 \<Rightarrow> fval list list list list" where
  "float_tensor t = map (map (map (map Finite))) t"

text \<open>
  The index tuples \<open>(i, j, a, b)\<close> in the order in which the four nested loops of
  \<open>compute_mp2_energy\<close> reach them.
\<close>

definition mp2_index_list :: "nat \<Rightarrow> nat \<Rightarrow> (nat \<times> nat \<times> nat \<times> nat) list" where
  "mp2_index_list N nocc =
     List.product [0..<nocc] (List.product [0..<nocc] (List.product [nocc..<N] [nocc..<N]))"

text \<open>The denominator and the term of an index tuple, as float64 computes them.\<close>

definition mp2_fdenominator :: "fval list \<Rightarrow> nat \<Rightarrow> nat \<Rightarrow> nat \<Rightarrow> nat \<Rightarrow> fval" where
  "mp2_fdenominator orb_e i j a b =
     fsub (fsub (fadd (orb_e ! i) (orb_e ! j)) (orb_e ! a)) (orb_e ! b)"

definition mp2_fterm ::
  "fval list list list list \<Rightarrow> fval list \<Rightarrow> nat \<Rightarrow> nat \<Rightarrow> nat \<Rightarrow> nat \<Rightarrow> fval" where
  "mp2_fterm g2e_mo orb_e i j a b =
     fdiv (fmul (g2e_mo ! i ! a ! j ! b)
             (fsub (fmul (Finite 2) (g2e_mo ! i ! a ! j ! b)) (g2e_mo ! i ! b ! j ! a)))
       (mp2_fdenominator orb_e i j a b)"

text \<open>The terms of a list of index tuples, added to \<open>E\<close> one after the other.\<close>

definition mp2_accumulate ::
  "fval list list list list \<Rightarrow> fval list \<Rightarrow> fval \<Rightarrow> (nat \<times> nat \<times> nat \<times> nat) list \<Rightarrow> fval" where
  "mp2_accumulate g2e_mo orb_e E idx =
     foldl (\<lambda>E (i, j, a, b). fadd E (mp2_fterm g2e_mo orb_e i j a b)) E idx"

section \<open>Results, indexing and loops: basic facts\<close>

lemma bind_res_Inr [simp]: "bind_res (Inr x) f = f x"
  by (simp add: bind_res_def)

lemma bind_res_Inl [simp]: "bind_res (Inl e) f = Inl e"
  by (simp add: bind_res_def)

lemma range_py_empty: "hi \<le> lo \<Longrightarrow> range_py lo hi = []"
  by (simp add: range_py_def)

lemma in_range_py_iff: "x \<in> set (range_py lo hi) \<longleftrightarrow> lo \<le> x \<and> x < hi"
  by (auto simp: range_py_def)

lemma range_py_nat: "range_py (int lo) (int hi) = map int [lo..<hi]"
proof (induction hi)
  case 0
  then show ?case by (simp add: range_py_def)
next
  case (Suc hi)
  show ?case
  proof (cases "lo \<le> hi")
    case True
    then have "[int lo..int (Suc hi) - 1] = [int lo..int hi - 1] @ [int hi]"
      using upto_rec2 [of "int lo" "int hi"] by simp
    with Suc True show ?thesis by (simp add: range_py_def)
  next
    case False
    then show ?thesis by (simp add: range_py_def)
  qed
qed

text \<open>A loop whose body changes nothing changes nothing.\<close>

lemma for_loop_skip:
  "(\<And>x st. x \<in> set xs \<Longrightarrow> body x st = Inr st) \<Longrightarrow> for_loop xs body st = Inr st"
  by (induction xs) auto

text \<open>A loop whose body keeps an invariant without raising does the same.\<close>

lemma for_loop_invariant:
  assumes "P st"
    and "\<And>x s. x \<in> set xs \<Longrightarrow> P s \<Longrightarrow> \<exists>s'. body x s = Inr s' \<and> P s'"
  shows "\<exists>s'. for_loop xs body st = Inr s' \<and> P s'"
  using assms
proof (induction xs arbitrary: st)
  case Nil
  then show ?case by simp
next
  case (Cons x xs)
  from Cons.prems obtain s1 where s1: "body x st = Inr s1" "P s1"
    by (meson list.set_intros(1))
  have "\<exists>s'. for_loop xs body s1 = Inr s' \<and> P s'"
    by (rule Cons.IH [OF s1(2)]) (simp add: Cons.prems(2))
  with s1 show ?case by simp
qed

lemma get1_nat: "k < length xs \<Longrightarrow> get1 xs (int k) = Inr (xs ! k)"
  by (simp add: get1_def py_index_def)

lemma set1_nat: "k < length xs \<Longrightarrow> set1 xs (int k) v = Inr (xs[k := v])"
  by (simp add: set1_def py_index_def)

lemma is_tensor4_lengths:
  assumes "is_tensor4 d0 d1 d2 d3 t"
  shows "length t = d0"
    and "i < d0 \<Longrightarrow> length (t ! i) = d1"
    and "i < d0 \<Longrightarrow> j < d1 \<Longrightarrow> length (t ! i ! j) = d2"
    and "i < d0 \<Longrightarrow> j < d1 \<Longrightarrow> k < d2 \<Longrightarrow> length (t ! i ! j ! k) = d3"
  using assms by (simp_all add: is_tensor4_def list_all_length)

lemma is_matrix_lengths:
  assumes "is_matrix d0 d1 m"
  shows "length m = d0" and "i < d0 \<Longrightarrow> length (m ! i) = d1"
  using assms by (simp_all add: is_matrix_def list_all_length)

lemma get4_nat:
  assumes "is_tensor4 d0 d1 d2 d3 t" "i < d0" "j < d1" "k < d2" "l < d3"
  shows "get4 t (int i) (int j) (int k) (int l) = Inr (t ! i ! j ! k ! l)"
  using assms is_tensor4_lengths [OF assms(1)]
  by (simp add: get4_def get1_nat)

lemma get2_nat:
  assumes "is_matrix d0 d1 m" "i < d0" "j < d1"
  shows "get2 m (int i) (int j) = Inr (m ! i ! j)"
  using assms is_matrix_lengths [OF assms(1)]
  by (simp add: get2_def get1_nat)

lemma set4_nat:
  assumes "is_tensor4 d0 d1 d2 d3 t" "i < d0" "j < d1" "k < d2" "l < d3"
  shows "set4 t (int i) (int j) (int k) (int l) v =
           Inr (t[i := (t ! i)[j := (t ! i ! j)[k := (t ! i ! j ! k)[l := v]]]])"
  using assms is_tensor4_lengths [OF assms(1)]
  by (simp add: set4_def get1_nat set1_nat)

lemma is_tensor4_update:
  assumes "is_tensor4 d0 d1 d2 d3 t" "i < d0" "j < d1" "k < d2" "l < d3"
  shows "is_tensor4 d0 d1 d2 d3
           (t[i := (t ! i)[j := (t ! i ! j)[k := (t ! i ! j ! k)[l := v]]]])"
  using assms
  by (auto simp: is_tensor4_def list_all_length nth_list_update)

lemma is_tensor4_zeros_like:
  "is_tensor4 d0 d1 d2 d3 t \<Longrightarrow> is_tensor4 d0 d1 d2 d3 (zeros_like t)"
  by (simp add: is_tensor4_def zeros_like_def list_all_length)

lemma iadd4_nat:
  assumes "is_tensor4 d0 d1 d2 d3 t" "i < d0" "j < d1" "k < d2" "l < d3"
  shows "\<exists>t'. iadd4 t (int i) (int j) (int k) (int l) (Inr v) = Inr t'
           \<and> is_tensor4 d0 d1 d2 d3 t'"
  using assms by (simp add: iadd4_def get4_nat set4_nat is_tensor4_update)

section \<open>The MP2 energy: what the loops compute\<close>

text \<open>A loop whose body folds a list into the state folds the lists of all its passes.\<close>

lemma for_loop_foldl:
  "(\<And>k st. k \<in> set ks \<Longrightarrow> body (int k) st = Inr (foldl F st (L k))) \<Longrightarrow>
   for_loop (map int ks) body st = Inr (foldl F st (concat (map L ks)))"
  by (induction ks arbitrary: st) simp_all

lemma mp2_body_nat:
  assumes "is_tensor4 N N N N g" "length e = N" "i < N" "j < N" "a < N" "b < N"
  shows "mp2_body g e (int i) (int j) (int a) (int b) E = Inr (fadd E (mp2_fterm g e i j a b))"
  using assms
  by (simp add: mp2_body_def mp2_fterm_def mp2_fdenominator_def get4_nat [OF assms(1)] get1_nat)

lemma mp2_index_list_concat:
  "mp2_index_list N nocc =
     concat (map (\<lambda>i. concat (map (\<lambda>j. concat (map (\<lambda>a. concat (map (\<lambda>b.
       [(i, j, a, b)]) [nocc..<N])) [nocc..<N])) [0..<nocc])) [0..<nocc])"
  by (simp add: mp2_index_list_def product_concat_map map_concat comp_def)

text \<open>
  On arrays of the right shape no read fails, and the four loops add the float64 terms
  to \<open>E\<close> in the order of \<open>mp2_index_list\<close>.
\<close>

lemma mp2_loops:
  assumes g: "is_tensor4 N N N N g" and e: "length e = N" and nocc: "nocc \<le> N"
  shows "compute_mp2_energy (int N) (int nocc) g e ehf =
           Inr (mp2_accumulate g e (Finite 0) (mp2_index_list N nocc))"
proof -
  define F where "F = (\<lambda>E (i, j, a, b). fadd E (mp2_fterm g e i j a b))"
  have r0: "range_py 0 (int nocc) = map int [0..<nocc]"
    using range_py_nat [of 0 nocc] by simp
  have body: "mp2_body g e (int i) (int j) (int a) (int b) E = Inr (foldl F E [(i, j, a, b)])"
    if "i \<in> set [0..<nocc]" "j \<in> set [0..<nocc]" "a \<in> set [nocc..<N]" "b \<in> set [nocc..<N]"
    for i j a b E
    using that nocc by (simp add: F_def mp2_body_nat [OF g e])
  have "for_loop (map int [0..<nocc]) (\<lambda>i.
       for_loop (map int [0..<nocc]) (\<lambda>j.
         for_loop (map int [nocc..<N]) (\<lambda>a.
           for_loop (map int [nocc..<N]) (\<lambda>b.
             mp2_body g e i j a b)))) (Finite 0) =
     Inr (foldl F (Finite 0)
       (concat (map (\<lambda>i. concat (map (\<lambda>j. concat (map (\<lambda>a. concat (map (\<lambda>b.
          [(i, j, a, b)]) [nocc..<N])) [nocc..<N])) [0..<nocc])) [0..<nocc])))"
    by (intro for_loop_foldl body)
  then show ?thesis
    by (simp add: compute_mp2_energy_def r0 range_py_nat mp2_accumulate_def F_def
        mp2_index_list_concat)
qed

lemma set_mp2_index_list: "set (mp2_index_list N nocc) = mp2_indices N nocc"
  by (simp add: mp2_index_list_def mp2_indices_def)



text \<open>A sum with \<open>inf\<close> or \<open>nan\<close> in it is \<open>inf\<close> or \<open>nan\<close>; so is a quotient by zero.\<close>

lemma fadd_not_finite_left: "\<not> is_finite x \<Longrightarrow> \<not> is_finite (fadd x y)"
  by (cases x; cases y) simp_all

lemma fadd_not_finite_right: "\<not> is_finite y \<Longrightarrow> \<not> is_finite (fadd x y)"
  by (cases x; cases y) simp_all

lemma fdiv_zero_not_finite: "is_zero y \<Longrightarrow> \<not> is_finite (fdiv x y)"
  by (cases x; cases y) (simp_all add: fdiv_def inf_of_sign_def)

lemma mp2_accumulate_not_finite_start:
  "\<not> is_finite E \<Longrightarrow> \<not> is_finite (mp2_accumulate g e E idx)"
  by (induction idx arbitrary: E)
    (simp_all add: mp2_accumulate_def fadd_not_finite_left split: prod.splits)

lemma mp2_accumulate_not_finite:
  assumes "(i, j, a, b) \<in> set idx" and "\<not> is_finite (mp2_fterm g e i j a b)"
  shows "\<not> is_finite (mp2_accumulate g e E idx)"
  using assms(1)
proof (induction idx arbitrary: E)
  case Nil
  then show ?case by simp
next
  case (Cons t idx)
  have step: "mp2_accumulate g e E (t # idx) =
      mp2_accumulate g e (case t of (i, j, a, b) \<Rightarrow> fadd E (mp2_fterm g e i j a b)) idx"
    by (simp add: mp2_accumulate_def)
  show ?case
  proof (cases "t = (i, j, a, b)")
    case True
    then show ?thesis
      unfolding step
      by (simp add: mp2_accumulate_not_finite_start fadd_not_finite_right assms(2))
  next
    case False
    with Cons.prems have "(i, j, a, b) \<in> set idx" by simp
    then show ?thesis
      unfolding step by (rule Cons.IH)
  qed
qed


text \<open>Evaluation of \<open>bit_length\<close> on numerals, and of the rounding.\<close>

lemma bit_length_0 [simp]: "bit_length 0 = 0"
  by (simp add: bit_length.simps)
lemma bit_length_1 [simp]: "bit_length 1 = 1"
  by (simp add: bit_length.simps)
lemma bit_length_Bit0 [simp]: "bit_length (numeral (Num.Bit0 n)) = 1 + bit_length (numeral n)"
  by (subst bit_length.simps) simp
lemma bit_length_Bit1 [simp]: "bit_length (numeral (Num.Bit1 n)) = 1 + bit_length (numeral n)"
  by (subst bit_length.simps) simp

lemmas round64_eval = round64_def ilog2_def pow2_def round_half_even_def Let_def

section \<open>The MP2 energy: claims\<close>




text \<open>
  C6, as the specification states it, fails: with \<open>orb_e = [2.0, 2.0]\<close> the one
  denominator is zero and the function returns \<open>inf\<close>, a value and not an error; with
  \<open>orb_e = [1, 1 + 2\<^sup>-\<^sup>4\<^sup>0]\<close> the denominator is \<open>-2\<^sup>-\<^sup>3\<^sup>9\<close> and the function returns the finite
  energy \<open>-36 \<cdot> 2\<^sup>3\<^sup>9\<close>.
\<close>

theorem mp2_degenerate_counterexample:
  "mp2_fdenominator (float_vector [2, 2]) 0 0 1 1 = Finite 0
   \<and> compute_mp2_energy 2 1 (float_tensor mo_example) (float_vector [2, 2]) 7 = Inr PosInf
   \<and> mp2_fdenominator (float_vector [1, 1 + 1 / 2 ^ 40]) 0 0 1 1 = Finite (- (1 / 2 ^ 39))
   \<and> compute_mp2_energy 2 1 (float_tensor mo_example) (float_vector [1, 1 + 1 / 2 ^ 40]) 7
       = Inr (Finite (- (36 * 2 ^ 39)))"
proof -
  have shape: "is_tensor4 2 2 2 2 (float_tensor mo_example)"
    by (simp add: is_tensor4_def float_tensor_def mo_example_def)
  have idx: "mp2_index_list 2 1 = [(0, 0, 1, 1)]"
    by (simp add: mp2_index_list_def upt_conv_Cons)
  have d1: "mp2_fdenominator (float_vector [2, 2]) 0 0 1 1 = Finite 0"
    by (simp add: float_vector_def mp2_fdenominator_def fsub_def round64_eval)
  have t1: "mp2_fterm (float_tensor mo_example) (float_vector [2, 2]) 0 0 1 1 = PosInf"
    by (simp add: float_vector_def mp2_fterm_def mp2_fdenominator_def float_tensor_def
        mo_example_def fsub_def fmul_def fdiv_def round64_eval sign_xor_def inf_of_sign_def)
  have "mp2_accumulate (float_tensor mo_example) (float_vector [2, 2]) (Finite 0)
      (mp2_index_list 2 1) = PosInf"
    by (simp only: idx mp2_accumulate_def foldl_Cons foldl_Nil prod.case t1 fadd.simps)
  with mp2_loops [OF shape, of "float_vector [2, 2]" 1 7]
  have c1: "compute_mp2_energy 2 1 (float_tensor mo_example) (float_vector [2, 2]) 7
      = Inr PosInf"
    by (simp add: float_vector_def)
  have d2: "mp2_fdenominator (float_vector [1, 1 + 1 / 2 ^ 40]) 0 0 1 1
      = Finite (- (1 / 2 ^ 39))"
    by (simp add: float_vector_def mp2_fdenominator_def fsub_def round64_eval)
  have t2: "mp2_fterm (float_tensor mo_example) (float_vector [1, 1 + 1 / 2 ^ 40]) 0 0 1 1
      = Finite (- (36 * 2 ^ 39))"
    by (simp add: float_vector_def mp2_fterm_def mp2_fdenominator_def float_tensor_def
        mo_example_def fsub_def fmul_def fdiv_def round64_eval)
  have e: "fadd (Finite 0) (Finite (- (36 * 2 ^ 39))) = Finite (- (36 * 2 ^ 39))"
    by (simp add: round64_eval)
  have "mp2_accumulate (float_tensor mo_example) (float_vector [1, 1 + 1 / 2 ^ 40])
      (Finite 0) (mp2_index_list 2 1) = Finite (- (36 * 2 ^ 39))"
    by (simp only: idx mp2_accumulate_def foldl_Cons foldl_Nil prod.case t2 e)
  with mp2_loops [OF shape, of "float_vector [1, 1 + 1 / 2 ^ 40]" 1 7]
  have c2: "compute_mp2_energy 2 1 (float_tensor mo_example)
      (float_vector [1, 1 + 1 / 2 ^ 40]) 7 = Inr (Finite (- (36 * 2 ^ 39)))"
    by (simp add: float_vector_def)
  from d1 c1 d2 c2 show ?thesis
    by (simp only: simp_thms)
qed

text \<open>
  C6, amended. \<open>compute_mp2_energy\<close> has no check of the denominators and raises nothing
  for them: on arrays of the right shape, if the float64 denominator
  \<open>orb_e[i] + orb_e[j] - orb_e[a] - orb_e[b]\<close> of some occupied pair and virtual pair is
  zero, the function returns to its caller, and what it returns is \<open>inf\<close>, \<open>-inf\<close> or
  \<open>nan\<close>.
\<close>

theorem mp2_zero_denominator:
  assumes "is_tensor4 N N N N g2e_mo" and "length orb_e = N" and "nocc \<le> N"
    and idx: "(i, j, a, b) \<in> mp2_indices N nocc"
    and zero: "is_zero (mp2_fdenominator orb_e i j a b)"
  shows "\<exists>E. compute_mp2_energy (int N) (int nocc) g2e_mo orb_e ehf = Inr E \<and> \<not> is_finite E"
proof -
  from idx have mem: "(i, j, a, b) \<in> set (mp2_index_list N nocc)"
    by (simp add: set_mp2_index_list)
  from zero have "\<not> is_finite (mp2_fterm g2e_mo orb_e i j a b)"
    by (simp add: mp2_fterm_def fdiv_zero_not_finite)
  with mem have "\<not> is_finite (mp2_accumulate g2e_mo orb_e (Finite 0) (mp2_index_list N nocc))"
    by (rule mp2_accumulate_not_finite)
  then show ?thesis
    by (simp add: mp2_loops [OF assms(1-3)])
qed

theorem mp2_zero_denominator_witness:
  "is_tensor4 2 2 2 2 (float_tensor mo_example) \<and> length (float_vector [4, 4]) = 2
   \<and> (1 :: nat) \<le> 2
   \<and> (0, 0, 1, 1) \<in> mp2_indices 2 1
   \<and> is_zero (mp2_fdenominator (float_vector [4, 4]) 0 0 1 1)
   \<and> (\<exists>E. compute_mp2_energy 2 1 (float_tensor mo_example) (float_vector [4, 4]) 7 = Inr E
         \<and> \<not> is_finite E)"
proof -
  have h1: "is_tensor4 2 2 2 2 (float_tensor mo_example)"
    by (simp add: is_tensor4_def float_tensor_def mo_example_def)
  have h2: "length (float_vector [4, 4]) = 2" and h3: "(1 :: nat) \<le> 2"
    by (simp_all add: float_vector_def)
  have h4: "(0, 0, 1, 1) \<in> mp2_indices 2 1"
    by (simp add: mp2_indices_def)
  have h5: "is_zero (mp2_fdenominator (float_vector [4, 4]) 0 0 1 1)"
    by (simp add: float_vector_def mp2_fdenominator_def fsub_def round64_eval)
  from mp2_zero_denominator [OF h1 h2 h3 h4 h5, of 7] h1 h2 h4 h5 show ?thesis
    by simp
qed

text \<open>
  C8. With \<open>nocc = 0\<close> and with \<open>nocc = N\<close> the function returns 0 and raises nothing,
  whatever the arrays and the HF energy are.
\<close>

theorem mp2_boundary:
  "compute_mp2_energy N 0 g2e_mo orb_e ehf = Inr (Finite 0)
   \<and> compute_mp2_energy N N g2e_mo orb_e ehf = Inr (Finite 0)"
proof
  show "compute_mp2_energy N 0 g2e_mo orb_e ehf = Inr (Finite 0)"
    by (simp add: compute_mp2_energy_def range_py_empty)
next
  have inner: "for_loop (range_py N N) body st = Inr st"
    for body :: "int \<Rightarrow> fval \<Rightarrow> error + fval" and st
    by (simp add: range_py_empty)
  show "compute_mp2_energy N N g2e_mo orb_e ehf = Inr (Finite 0)"
    unfolding compute_mp2_energy_def
    by (rule for_loop_skip, rule for_loop_skip) (simp add: inner)
qed

text \<open>
  C10. With \<open>nocc < 0\<close> or \<open>nocc > num_bf\<close> the function returns 0 and raises nothing. It
  holds for all arrays, the empty ones among them, where every read would raise
  IndexError: so no entry of \<open>g2e_mo\<close> or \<open>orb_e\<close> is read.
\<close>

theorem mp2_out_of_range:
  assumes "nocc < 0 \<or> num_bf < nocc"
  shows "compute_mp2_energy num_bf nocc g2e_mo orb_e ehf = Inr (Finite 0)"
proof (cases "nocc < 0")
  case True
  then show ?thesis by (simp add: compute_mp2_energy_def range_py_empty)
next
  case False
  with assms have "num_bf < nocc" by simp
  then have inner: "for_loop (range_py nocc num_bf) body st = Inr st"
    for body :: "int \<Rightarrow> fval \<Rightarrow> error + fval" and st
    by (simp add: range_py_empty)
  show ?thesis
    unfolding compute_mp2_energy_def
    by (rule for_loop_skip, rule for_loop_skip) (simp add: inner)
qed

theorem mp2_out_of_range_witness:
  "((- 1 :: int) < 0 \<or> (2 :: int) < - 1)
   \<and> compute_mp2_energy 2 (- 1) [] [] 7 = Inr (Finite 0)
   \<and> ((3 :: int) < 0 \<or> (2 :: int) < 3)
   \<and> compute_mp2_energy 2 3 [] [] 7 = Inr (Finite 0)"
proof -
  have h1: "(- 1 :: int) < 0 \<or> (2 :: int) < - 1" and h2: "(3 :: int) < 0 \<or> (2 :: int) < 3"
    by simp_all
  from mp2_out_of_range [OF h1, of "[]" "[]" 7] mp2_out_of_range [OF h2, of "[]" "[]" 7]
  show ?thesis by simp
qed

section \<open>The integral transformation: no shape check\<close>

text \<open>One pass of a loop body of the naive strategy, on indices within bounds.\<close>

lemma naive_step:
  assumes t: "is_tensor4 d0 d1 d2 d3 t" and g: "is_tensor4 d0 d1 d2 d3 g2e_ao"
    and C: "is_matrix c0 c1 coeff_mat"
    and w: "0 \<le> p" "p < int d0" "0 \<le> q" "q < int d1" "0 \<le> r" "r < int d2" "0 \<le> s" "s < int d3"
      "p < int c0" "q < int c0" "r < int c0" "s < int c0"
    and x: "0 \<le> mu" "mu < int d0" "0 \<le> nu" "nu < int d1" "0 \<le> rho" "rho < int d2"
      "0 \<le> sigma" "sigma < int d3" "mu < int c1" "nu < int c1" "rho < int c1" "sigma < int c1"
  shows "\<exists>t'. iadd4 t p q r s (slow_rhs g2e_ao coeff_mat p q r s mu nu rho sigma) = Inr t'
           \<and> is_tensor4 d0 d1 d2 d3 t'"
proof -
  have rd: "get4 g2e_ao mu nu rho sigma = Inr (g2e_ao ! nat mu ! nat nu ! nat rho ! nat sigma)"
    using get4_nat [OF g, of "nat mu" "nat nu" "nat rho" "nat sigma"] x by simp
  have rc: "get2 coeff_mat i j = Inr (coeff_mat ! nat i ! nat j)"
    if "0 \<le> i" "i < int c0" "0 \<le> j" "j < int c1" for i j
    using get2_nat [OF C, of "nat i" "nat j"] that by simp
  have "\<exists>v. slow_rhs g2e_ao coeff_mat p q r s mu nu rho sigma = Inr v"
    using w x by (simp add: slow_rhs_def rd rc)
  then obtain v where "slow_rhs g2e_ao coeff_mat p q r s mu nu rho sigma = Inr v" ..
  then show ?thesis
    using iadd4_nat [OF t, of "nat p" "nat q" "nat r" "nat s" v] w by simp
qed

lemma transform_integrals_slow_succeeds:
  assumes g: "is_tensor4 d0 d1 d2 d3 g2e_ao" and C: "is_matrix c0 c1 coeff_mat"
    and n: "num_bf \<le> int d0" "num_bf \<le> int d1" "num_bf \<le> int d2" "num_bf \<le> int d3"
      "num_bf \<le> int c0" "num_bf \<le> int c1"
  shows "\<exists>t. transform_integrals_slow num_bf g2e_ao coeff_mat = Inr t
           \<and> is_tensor4 d0 d1 d2 d3 t"
  unfolding transform_integrals_slow_def
  apply (rule for_loop_invariant [where P = "is_tensor4 d0 d1 d2 d3"])
   apply (rule is_tensor4_zeros_like [OF g])
  apply (rule for_loop_invariant [where P = "is_tensor4 d0 d1 d2 d3"], assumption)+
  apply (insert n)
  apply (rule naive_step [OF _ g C]; (assumption | simp add: in_range_py_iff))
  done

text \<open>One pass of a loop body of the factored strategy, on indices within bounds.\<close>

lemma axis_step:
  assumes t: "is_tensor4 d0 d1 d2 d3 t" and src: "is_tensor4 e0 e1 e2 e3 src"
    and C: "is_matrix c0 c1 C"
    and w: "0 \<le> i" "i < int d0" "0 \<le> j" "j < int d1" "0 \<le> k" "k < int d2" "0 \<le> l" "l < int d3"
    and r: "0 \<le> i'" "i' < int e0" "0 \<le> j'" "j' < int e1" "0 \<le> k'" "k' < int e2"
      "0 \<le> l'" "l' < int e3"
    and c: "0 \<le> m" "m < int c0" "0 \<le> n" "n < int c1"
  shows "\<exists>t'. iadd4 t i j k l
           (bind_res (get4 src i' j' k' l') (\<lambda>x. bind_res (get2 C m n) (\<lambda>c. Inr (x * c)))) = Inr t'
         \<and> is_tensor4 d0 d1 d2 d3 t'"
proof -
  have rd: "get4 src i' j' k' l' = Inr (src ! nat i' ! nat j' ! nat k' ! nat l')"
    using get4_nat [OF src, of "nat i'" "nat j'" "nat k'" "nat l'"] r by simp
  have rc: "get2 C m n = Inr (C ! nat m ! nat n)"
    using get2_nat [OF C, of "nat m" "nat n"] c by simp
  show ?thesis
    using iadd4_nat [OF t, of "nat i" "nat j" "nat k" "nat l"] w
    by (simp add: rd rc)
qed

lemma pass1_succeeds:
  assumes g: "is_tensor4 d0 d1 d2 d3 g2e_ao" and C: "is_matrix c0 c1 coeff_mat"
    and n: "num_bf \<le> int d0" "num_bf \<le> int d1" "num_bf \<le> int d2" "num_bf \<le> int d3"
      "num_bf \<le> int c0" "num_bf \<le> int c1"
  shows "\<exists>t. pass1 num_bf g2e_ao coeff_mat = Inr t \<and> is_tensor4 d0 d1 d2 d3 t"
  unfolding pass1_def
  apply (rule for_loop_invariant [where P = "is_tensor4 d0 d1 d2 d3"])
   apply (rule is_tensor4_zeros_like [OF g])
  apply (rule for_loop_invariant [where P = "is_tensor4 d0 d1 d2 d3"], assumption)+
  apply (insert n)
  apply (rule axis_step [OF _ g C]; (assumption | simp add: in_range_py_iff))
  done

lemma pass2_succeeds:
  assumes g2e_ao: "is_tensor4 d0 d1 d2 d3 g2e_ao" and g: "is_tensor4 d0 d1 d2 d3 g"
    and C: "is_matrix c0 c1 coeff_mat"
    and n: "num_bf \<le> int d0" "num_bf \<le> int d1" "num_bf \<le> int d2" "num_bf \<le> int d3"
      "num_bf \<le> int c0" "num_bf \<le> int c1"
  shows "\<exists>t. pass2 num_bf g2e_ao g coeff_mat = Inr t \<and> is_tensor4 d0 d1 d2 d3 t"
  unfolding pass2_def
  apply (rule for_loop_invariant [where P = "is_tensor4 d0 d1 d2 d3"])
   apply (rule is_tensor4_zeros_like [OF g2e_ao])
  apply (rule for_loop_invariant [where P = "is_tensor4 d0 d1 d2 d3"], assumption)+
  apply (insert n)
  apply (rule axis_step [OF _ g C]; (assumption | simp add: in_range_py_iff))
  done

lemma pass3_succeeds:
  assumes g: "is_tensor4 d0 d1 d2 d3 g" and gmo: "is_tensor4 d0 d1 d2 d3 gmo"
    and C: "is_matrix c0 c1 coeff_mat"
    and n: "num_bf \<le> int d0" "num_bf \<le> int d1" "num_bf \<le> int d2" "num_bf \<le> int d3"
      "num_bf \<le> int c0" "num_bf \<le> int c1"
  shows "\<exists>t. pass3 num_bf g gmo coeff_mat = Inr t \<and> is_tensor4 d0 d1 d2 d3 t"
  unfolding pass3_def
  apply (rule for_loop_invariant [where P = "is_tensor4 d0 d1 d2 d3"])
   apply (rule is_tensor4_zeros_like [OF g])
  apply (rule for_loop_invariant [where P = "is_tensor4 d0 d1 d2 d3"], assumption)+
  apply (insert n)
  apply (rule axis_step [OF _ gmo C]; (assumption | simp add: in_range_py_iff))
  done

lemma pass4_succeeds:
  assumes gmo: "is_tensor4 d0 d1 d2 d3 gmo" and g: "is_tensor4 d0 d1 d2 d3 g"
    and C: "is_matrix c0 c1 coeff_mat"
    and n: "num_bf \<le> int d0" "num_bf \<le> int d1" "num_bf \<le> int d2" "num_bf \<le> int d3"
      "num_bf \<le> int c0" "num_bf \<le> int c1"
  shows "\<exists>t. pass4 num_bf gmo g coeff_mat = Inr t \<and> is_tensor4 d0 d1 d2 d3 t"
  unfolding pass4_def
  apply (rule for_loop_invariant [where P = "is_tensor4 d0 d1 d2 d3"])
   apply (rule is_tensor4_zeros_like [OF gmo])
  apply (rule for_loop_invariant [where P = "is_tensor4 d0 d1 d2 d3"], assumption)+
  apply (insert n)
  apply (rule axis_step [OF _ g C]; (assumption | simp add: in_range_py_iff))
  done

lemma transform_integrals_succeeds:
  assumes g: "is_tensor4 d0 d1 d2 d3 g2e_ao" and C: "is_matrix c0 c1 coeff_mat"
    and n: "num_bf \<le> int d0" "num_bf \<le> int d1" "num_bf \<le> int d2" "num_bf \<le> int d3"
      "num_bf \<le> int c0" "num_bf \<le> int c1"
  shows "\<exists>t. transform_integrals num_bf g2e_ao coeff_mat = Inr t \<and> is_tensor4 d0 d1 d2 d3 t"
proof -
  from pass1_succeeds [OF g C n] obtain g1
    where g1: "pass1 num_bf g2e_ao coeff_mat = Inr g1" "is_tensor4 d0 d1 d2 d3 g1"
    by blast
  from pass2_succeeds [OF g g1(2) C n] obtain g2
    where g2: "pass2 num_bf g2e_ao g1 coeff_mat = Inr g2" "is_tensor4 d0 d1 d2 d3 g2"
    by blast
  from pass3_succeeds [OF g1(2) g2(2) C n] obtain g3
    where g3: "pass3 num_bf g1 g2 coeff_mat = Inr g3" "is_tensor4 d0 d1 d2 d3 g3"
    by blast
  from pass4_succeeds [OF g2(2) g3(2) C n] obtain g4
    where g4: "pass4 num_bf g2 g3 coeff_mat = Inr g4" "is_tensor4 d0 d1 d2 d3 g4"
    by blast
  from g1 g2 g3 g4 show ?thesis
    by (simp add: transform_integrals_def)
qed

text \<open>
  C7, as the specification states it, fails: with a \<open>1 \<times> 1 \<times> 1 \<times> 1\<close> tensor, a \<open>2 \<times> 2\<close>
  coefficient matrix and \<open>num_bf = 1\<close>, the naive and the factored strategy both return a
  tensor.
\<close>

theorem shape_mismatch_counterexample:
  "is_tensor4 1 1 1 1 [[[[3]]]] \<and> is_matrix 2 2 [[1, 2], [3, 4]]
   \<and> transform_integrals_slow 1 [[[[3]]]] [[1, 2], [3, 4]] = Inr [[[[3]]]]
   \<and> transform_integrals 1 [[[[3]]]] [[1, 2], [3, 4]] = Inr [[[[3]]]]"
  by code_simp

text \<open>
  C7, amended. The naive and the factored strategy do not compare the dimension of the
  coefficient matrix with the axes of \<open>g2e_ao\<close>. Whenever \<open>num_bf\<close> is at most every axis
  length of \<open>g2e_ao\<close> and of the coefficient matrix, both return a tensor of the shape of
  \<open>g2e_ao\<close> and raise nothing, whether the two dimensions agree or not.
\<close>

theorem transforms_succeed_within_bounds:
  assumes "is_tensor4 d0 d1 d2 d3 g2e_ao" and "is_matrix c0 c1 coeff_mat"
    and "num_bf \<le> int d0" "num_bf \<le> int d1" "num_bf \<le> int d2" "num_bf \<le> int d3"
      "num_bf \<le> int c0" "num_bf \<le> int c1"
  shows "(\<exists>t. transform_integrals_slow num_bf g2e_ao coeff_mat = Inr t
            \<and> is_tensor4 d0 d1 d2 d3 t)
       \<and> (\<exists>t. transform_integrals num_bf g2e_ao coeff_mat = Inr t
            \<and> is_tensor4 d0 d1 d2 d3 t)"
  using transform_integrals_slow_succeeds [OF assms] transform_integrals_succeeds [OF assms]
  by simp

theorem transforms_succeed_within_bounds_witness:
  "is_tensor4 1 1 1 1 [[[[5]]]] \<and> is_matrix 3 2 [[1, 2], [3, 4], [5, 6]]
   \<and> (\<exists>t. transform_integrals_slow 1 [[[[5]]]] [[1, 2], [3, 4], [5, 6]] = Inr t
         \<and> is_tensor4 1 1 1 1 t)
   \<and> (\<exists>t. transform_integrals 1 [[[[5]]]] [[1, 2], [3, 4], [5, 6]] = Inr t
         \<and> is_tensor4 1 1 1 1 t)"
proof -
  have h1: "is_tensor4 1 1 1 1 [[[[5]]]]"
    by (simp add: is_tensor4_def)
  have h2: "is_matrix 3 2 [[1, 2], [3, 4], [5, 6]]"
    by (simp add: is_matrix_def)
  have h3: "(1 :: int) \<le> int 1" "(1 :: int) \<le> int 3" "(1 :: int) \<le> int 2"
    by simp_all
  from transforms_succeed_within_bounds [OF h1 h2 h3(1) h3(1) h3(1) h3(1) h3(2) h3(3)] h1 h2
  show ?thesis by simp
qed

section \<open>The integral transformation: where the strategies part from the specification\<close>

text \<open>
  C1. The specification asks every strategy for the defining contraction. At the example
  AO tensor and coefficient matrix, the contraction is 1 at the entries \<open>[p, q, r, 1]\<close>
  and 0 elsewhere, and no strategy returns it: the naive loop multiplies by
  \<open>coeff_mat[p, mu]\<close> where the contraction has \<open>C[\<mu>, p]\<close>, the factored loops multiply by
  \<open>coeff_mat[rho, s]\<close> in their first pass where the contraction has \<open>C[\<sigma>, s]\<close>, and the
  einsum variant of the fast script keeps the last of its four contractions only.
\<close>

theorem transform_contraction_example:
  "transform_integrals_slow 2 ao_example coeff_example =
     Inr [[[[1, 1], [0, 0]], [[0, 0], [0, 0]]], [[[0, 0], [0, 0]], [[0, 0], [0, 0]]]]
   \<and> transform_integrals 2 ao_example coeff_example =
     Inr [[[[1, 1], [1, 1]], [[1, 1], [1, 1]]], [[[1, 1], [1, 1]], [[1, 1], [1, 1]]]]
   \<and> transform_integrals_einsum \<lparr>g2e_ao_global = ao_example\<rparr> ao_example coeff_example =
     Inr [[[[0, 1], [0, 0]], [[0, 0], [0, 0]]], [[[0, 0], [0, 0]], [[0, 0], [0, 0]]]]
   \<and> contraction 2 ao_example coeff_example =
     [[[[0, 1], [0, 1]], [[0, 1], [0, 1]]], [[[0, 1], [0, 1]], [[0, 1], [0, 1]]]]"
  by code_simp

text \<open>
  C2. The specification asks the three strategies for the same tensor. At the example
  input, with the module-level \<open>g2e_ao\<close> equal to the argument, the three results are
  pairwise different.
\<close>

theorem strategies_disagree_example:
  "transform_integrals_slow 2 ao_example coeff_example
     \<noteq> transform_integrals 2 ao_example coeff_example
   \<and> transform_integrals 2 ao_example coeff_example
     \<noteq> transform_integrals_einsum \<lparr>g2e_ao_global = ao_example\<rparr> ao_example coeff_example
   \<and> transform_integrals_slow 2 ao_example coeff_example
     \<noteq> transform_integrals_einsum \<lparr>g2e_ao_global = ao_example\<rparr> ao_example coeff_example"
  by code_simp

text \<open>
  C3. The specification's first intermediate sums \<open>g2e_ao[\<mu>,\<nu>,\<rho>,\<sigma>] \<cdot> C[\<sigma>,s]\<close> over \<open>\<sigma>\<close>.
  The first pass of \<open>transform_integrals\<close> multiplies by \<open>coeff_mat[rho, s]\<close>: at the
  example input it yields 1 at \<open>[0, 0, 0, 0]\<close>, where the specification's intermediate
  is \<open>g2e_ao[0,0,0,1] \<cdot> C[1,0] = 0\<close>.
\<close>

theorem first_pass_example:
  "pass1 2 ao_example coeff_example =
     Inr [[[[1, 1], [0, 0]], [[0, 0], [0, 0]]], [[[0, 0], [0, 0]], [[0, 0], [0, 0]]]]
   \<and> first_contraction 2 ao_example coeff_example =
     [[[[0, 1], [0, 0]], [[0, 0], [0, 0]]], [[[0, 0], [0, 0]], [[0, 0], [0, 0]]]]"
  by code_simp

text \<open>
  C4. The specification asks for a function of the two arguments alone. Two calls of
  either einsum variant with the same arguments, made while the module-level \<open>g2e_ao\<close>
  holds two different tensors, return two different tensors: the result follows the
  module-level variable, not the argument.
\<close>

theorem einsum_global_example:
  "transform_integrals_einsum \<lparr>g2e_ao_global = [[[[1]]]]\<rparr> [[[[5]]]] [[1]] = Inr [[[[1]]]]
   \<and> transform_integrals_einsum \<lparr>g2e_ao_global = [[[[2]]]]\<rparr> [[[[5]]]] [[1]] = Inr [[[[2]]]]
   \<and> transform_integrals_einsum_slow_py \<lparr>g2e_ao_global = [[[[1]]]]\<rparr> [[[[5]]]] [[1]]
       = Inr [[[[1]]]]
   \<and> transform_integrals_einsum_slow_py \<lparr>g2e_ao_global = [[[[2]]]]\<rparr> [[[[5]]]] [[1]]
       = Inr [[[[2]]]]"
  by code_simp

text \<open>
  C9. The specification asks every strategy to return the AO tensor when the coefficient
  matrix is the identity. The factored strategy does not: at the example tensor, whose
  only nonzero entry is \<open>[0, 0, 0, 1]\<close>, it returns a tensor whose only nonzero entry is
  \<open>[0, 0, 0, 0]\<close>.
\<close>

theorem identity_transform_example:
  "transform_integrals 2 ao_example identity2 =
     Inr [[[[1, 0], [0, 0]], [[0, 0], [0, 0]]], [[[0, 0], [0, 0]], [[0, 0], [0, 0]]]]
   \<and> ao_example =
     [[[[0, 1], [0, 0]], [[0, 0], [0, 0]]], [[[0, 0], [0, 0]], [[0, 0], [0, 0]]]]"
  by code_simp

end
